theory Spec2Isabelle
  imports Complex_Main
begin

text \<open>
  A shallow embedding of \<^verbatim>\<open>lifelines/estimation.py\<close>: the generic additive estimator, the
  Nelson-Aalen and Kaplan-Meier fitters built on it, Aalen's additive regression and the
  quantile lookup, followed by the properties proved of them.  A Python exception is a value
  \<open>Inl e\<close>; a method that assigns attributes returns the object with its new attributes.
\<close>


section \<open>Values of the numeric library\<close>

text \<open>
  The estimators of \<^verbatim>\<open>lifelines/estimation.py\<close> compute with numpy floats. The
  embedding idealises them as real numbers extended with the three special values that
  numpy produces instead of raising: a division by zero or the logarithm of zero gives an
  infinity, an undefined operation gives \<open>NaN\<close>.  Rounding is not modelled, and the only
  zero is the positive one.  Every comparison with \<open>NaN\<close> is false, as in numpy.
\<close>

datatype npfloat = Fin real | PInf | MInf | NaN

datatype py_error =
    IndexError | UnboundLocalError | AttributeError | AssertionError | ValueError

instantiation npfloat :: comm_monoid_add
begin

definition zero_npfloat :: npfloat where
  "zero_npfloat = Fin 0"

fun plus_npfloat :: "npfloat \<Rightarrow> npfloat \<Rightarrow> npfloat" where
  "plus_npfloat (Fin a) (Fin b) = Fin (a + b)"
| "plus_npfloat NaN _ = NaN"
| "plus_npfloat _ NaN = NaN"
| "plus_npfloat PInf MInf = NaN"
| "plus_npfloat MInf PInf = NaN"
| "plus_npfloat PInf _ = PInf"
| "plus_npfloat _ PInf = PInf"
| "plus_npfloat MInf _ = MInf"
| "plus_npfloat _ MInf = MInf"

instance
proof
  fix u w z :: npfloat
  show "0 + u = u"
    unfolding zero_npfloat_def by (cases u; simp)
  show "u + w = w + u"
    by (cases u; cases w; simp)
  show "u + w + z = u + (w + z)"
    by (cases u; cases w; cases z; simp)
qed

end

fun fl_neg :: "npfloat \<Rightarrow> npfloat" where
  "fl_neg (Fin a) = Fin (- a)"
| "fl_neg PInf = MInf"
| "fl_neg MInf = PInf"
| "fl_neg NaN = NaN"

definition fl_sub :: "npfloat \<Rightarrow> npfloat \<Rightarrow> npfloat" where
  "fl_sub a b = a + fl_neg b"

fun fl_mul :: "npfloat \<Rightarrow> npfloat \<Rightarrow> npfloat" where
  "fl_mul (Fin a) (Fin b) = Fin (a * b)"
| "fl_mul NaN _ = NaN"
| "fl_mul _ NaN = NaN"
| "fl_mul PInf (Fin b) = (if b = 0 then NaN else if 0 < b then PInf else MInf)"
| "fl_mul MInf (Fin b) = (if b = 0 then NaN else if 0 < b then MInf else PInf)"
| "fl_mul (Fin a) PInf = (if a = 0 then NaN else if 0 < a then PInf else MInf)"
| "fl_mul (Fin a) MInf = (if a = 0 then NaN else if 0 < a then MInf else PInf)"
| "fl_mul PInf PInf = PInf"
| "fl_mul MInf MInf = PInf"
| "fl_mul PInf MInf = MInf"
| "fl_mul MInf PInf = MInf"

fun fl_div :: "npfloat \<Rightarrow> npfloat \<Rightarrow> npfloat" where
  "fl_div (Fin a) (Fin b) =
     (if b \<noteq> 0 then Fin (a / b)
      else if a = 0 then NaN else if 0 < a then PInf else MInf)"
| "fl_div NaN _ = NaN"
| "fl_div _ NaN = NaN"
| "fl_div (Fin a) PInf = Fin 0"
| "fl_div (Fin a) MInf = Fin 0"
| "fl_div PInf (Fin b) = (if 0 \<le> b then PInf else MInf)"
| "fl_div MInf (Fin b) = (if 0 \<le> b then MInf else PInf)"
| "fl_div PInf PInf = NaN"
| "fl_div PInf MInf = NaN"
| "fl_div MInf PInf = NaN"
| "fl_div MInf MInf = NaN"

fun fl_exp :: "npfloat \<Rightarrow> npfloat" where
  "fl_exp (Fin a) = Fin (exp a)"
| "fl_exp PInf = PInf"
| "fl_exp MInf = Fin 0"
| "fl_exp NaN = NaN"

fun fl_log :: "npfloat \<Rightarrow> npfloat" where
  "fl_log (Fin a) = (if 0 < a then Fin (ln a) else if a = 0 then MInf else NaN)"
| "fl_log PInf = PInf"
| "fl_log MInf = NaN"
| "fl_log NaN = NaN"

fun fl_sqrt :: "npfloat \<Rightarrow> npfloat" where
  "fl_sqrt (Fin a) = (if 0 \<le> a then Fin (sqrt a) else NaN)"
| "fl_sqrt PInf = PInf"
| "fl_sqrt MInf = NaN"
| "fl_sqrt NaN = NaN"

fun fl_less :: "npfloat \<Rightarrow> npfloat \<Rightarrow> bool" where
  "fl_less (Fin a) (Fin b) = (a < b)"
| "fl_less NaN _ = False"
| "fl_less _ NaN = False"
| "fl_less _ MInf = False"
| "fl_less PInf _ = False"
| "fl_less MInf _ = True"
| "fl_less _ PInf = True"


definition of_py_int :: "int \<Rightarrow> npfloat" where
  "of_py_int k = Fin (of_int k)"

section \<open>The risk-set table\<close>

text \<open>
  One row of the table that \<^verbatim>\<open>dataframe_from_events_censorship\<close> returns: the index
  (a time) and the three columns in the order in which \<^verbatim>\<open>_additive_estimate\<close>
  unpacks \<^verbatim>\<open>itertuples()\<close>.
\<close>

record row =
  time :: real
  removed :: int
  observed_deaths :: int
  missing :: int

text \<open>
  Modelled from the spec: \<^verbatim>\<open>lifelines.utils.dataframe_from_events_censorship\<close> is not
  part of the sources. The spec (RiskSetAggregator) describes it: one row per distinct time,
  ascending, counting the subjects that leave at that time, those whose death was observed
  and those censored; arrays of different lengths are an invalid argument.
\<close>

definition dataframe_from_events_censorship ::
    "real list \<Rightarrow> bool list \<Rightarrow> py_error + row list" where
  "dataframe_from_events_censorship event_times censorship =
     (if length event_times \<noteq> length censorship then Inl ValueError
      else Inr (map (\<lambda>t.
          \<lparr>time = t,
           removed = int (length (filter (\<lambda>(s, ob). s = t) (zip event_times censorship))),
           observed_deaths =
             int (length (filter (\<lambda>(s, ob). s = t \<and> ob) (zip event_times censorship))),
           missing =
             int (length (filter (\<lambda>(s, ob). s = t \<and> \<not> ob) (zip event_times censorship)))\<rparr>)
        (sort (remdups event_times))))"

section \<open>The generic additive estimator\<close>

text \<open>
  \<^verbatim>\<open>_additive_estimate(event_times, timeline, additive_f, columns, variance_f)\<close>.
  A data frame with one column is its index and the list of its values; an assignment
  through a boolean mask (\<^verbatim>\<open>frame.ix[mask] = v\<close>) overwrites the masked positions.
  The argument \<^verbatim>\<open>columns\<close> only names the column and is left out.
\<close>

definition mask_assign :: "bool list \<Rightarrow> 'a \<Rightarrow> 'a list \<Rightarrow> 'a list" where
  "mask_assign msk x ys = map (\<lambda>(m, y). if m then x else y) (zip msk ys)"

text \<open>The local variables of the loop; \<open>s_t\<close> is unbound before the first iteration.\<close>

record 'a loop_state =
  s_est :: "'a list"
  s_var :: "'a list"
  s_N :: int
  s_v :: 'a
  s_v_sq :: 'a
  s_t_0 :: real
  s_t :: "real option"

definition additive_step ::
    "(int \<Rightarrow> int \<Rightarrow> 'a) \<Rightarrow> (int \<Rightarrow> int \<Rightarrow> 'a) \<Rightarrow> real list \<Rightarrow>
     'a::{zero,plus} loop_state \<Rightarrow> row \<Rightarrow> 'a loop_state" where
  "additive_step additive_f variance_f timeline s r =
     (let times = map (\<lambda>x. s_t_0 s \<le> x \<and> x < time r) timeline;
          est1 = mask_assign times (s_v s) (s_est s);
          var1 = mask_assign times (s_v_sq s) (s_var s);
          N1 = s_N s - missing r;
          v1 = s_v s + additive_f N1 (observed_deaths r);
          v_sq1 = s_v_sq s + variance_f N1 (observed_deaths r);
          N2 = N1 - observed_deaths r
      in \<lparr>s_est = est1, s_var = var1, s_N = N2, s_v = v1, s_v_sq = v_sq1,
          s_t_0 = time r, s_t = Some (time r)\<rparr>)"

definition additive_estimate ::
    "row list \<Rightarrow> real list \<Rightarrow> (int \<Rightarrow> int \<Rightarrow> 'a) \<Rightarrow> (int \<Rightarrow> int \<Rightarrow> 'a) \<Rightarrow>
     py_error + (real list \<times> 'a::{zero,plus} list \<times> 'a list)" where
  "additive_estimate event_times timeline0 additive_f variance_f =
     (case timeline0 of
        [] \<Rightarrow> Inl IndexError
      | x # _ \<Rightarrow>
          (let timeline = (if 0 < x then 0 # timeline0 else timeline0);
               n = length timeline;
               s0 = \<lparr>s_est = mask_assign (map (\<lambda>x. x < 0) timeline) 0 (replicate n 0),
                     s_var = mask_assign (map (\<lambda>x. x < 0) timeline) 0 (replicate n 0),
                     s_N = sum_list (map removed event_times),
                     s_v = 0, s_v_sq = 0, s_t_0 = 0, s_t = None\<rparr>;
               s = foldl (additive_step additive_f variance_f timeline) s0 event_times
           in case s_t s of
                None \<Rightarrow> Inl UnboundLocalError
              | Some t_last \<Rightarrow>
                  Inr (timeline,
                       mask_assign (map (\<lambda>x. t_last \<le> x) timeline) (s_v s) (s_est s),
                       mask_assign (map (\<lambda>x. t_last \<le> x) timeline) (s_v_sq s) (s_var s))))"

section \<open>Increment and variance functions\<close>

text \<open>
  \<^verbatim>\<open>N==d==0\<close> is the chained comparison \<open>N = d \<and> d = 0\<close>. The divisions are numpy
  divisions (the counts come out of a pandas column), so a zero divisor gives an infinity
  or \<open>NaN\<close>, not an exception. \<^verbatim>\<open>range(int(d))\<close> is \<open>[0..d - 1]\<close>.
\<close>

definition NA_variance_f_smooth :: "int \<Rightarrow> int \<Rightarrow> npfloat" where
  "NA_variance_f_smooth n d =
     (if n = d \<and> d = 0 then 0
      else sum_list (map (\<lambda>i. fl_div (Fin 1) (of_py_int ((n - i) ^ 2))) [0..d - 1]))"

definition NA_variance_f_discrete :: "int \<Rightarrow> int \<Rightarrow> npfloat" where
  "NA_variance_f_discrete n d =
     (if n = d \<and> d = 0 then 0
      else fl_div (fl_mul (fl_mul (Fin 1) (of_py_int (n - d))) (of_py_int d))
                  (of_py_int (n ^ 3)))"

definition NA_additive_f_smooth :: "int \<Rightarrow> int \<Rightarrow> npfloat" where
  "NA_additive_f_smooth n d =
     (if n = d \<and> d = 0 then 0
      else sum_list (map (\<lambda>i. fl_div (Fin 1) (of_py_int (n - i))) [0..d - 1]))"

definition NA_additive_f_discrete :: "int \<Rightarrow> int \<Rightarrow> npfloat" where
  "NA_additive_f_discrete n d =
     (if n = d \<and> d = 0 then 0
      else fl_div (fl_mul (Fin 1) (of_py_int d)) (of_py_int n))"

definition KM_additive_f :: "int \<Rightarrow> int \<Rightarrow> npfloat" where
  "KM_additive_f n d =
     (if n = d \<and> d = 0 then 0
      else fl_log (fl_sub (Fin 1) (fl_div (fl_mul (Fin 1) (of_py_int d)) (of_py_int n))))"

definition KM_variance_f :: "int \<Rightarrow> int \<Rightarrow> npfloat" where
  "KM_variance_f n d =
     (if n = d \<and> d = 0 then 0
      else fl_div (fl_mul (Fin 1) (of_py_int d)) (of_py_int (n * (n - d))))"

section \<open>Quantile lookup\<close>

text \<open>
  \<^verbatim>\<open>qth_survival_times(q, survival_functions)\<close> takes an \<open>(n, d)\<close> data frame (an index
  of \<open>n\<close> times and \<open>n\<close> rows) or a plain array (\<open>n\<close> rows), and answers per column.
  \<^verbatim>\<open>idxmax\<close> and \<^verbatim>\<open>argmax\<close> on booleans give the first position holding the largest
  value: the first \<open>True\<close>, or position 0 when there is none.  With no row at all both
  branches of the \<^verbatim>\<open>try\<close> raise.
\<close>

datatype survival_functions =
    DataFrame "real list" "npfloat list list"
  | NdArray "npfloat list list"

datatype lookup = Times "real list" | Indices "int list"

definition columns_of :: "'a list list \<Rightarrow> 'a list list" where
  "columns_of rows =
     (case rows of [] \<Rightarrow> [] | r # _ \<Rightarrow> map (\<lambda>j. map (\<lambda>r. r ! j) rows) [0..<length r])"

definition argmax_bool :: "bool list \<Rightarrow> nat" where
  "argmax_bool bs = (if True \<in> set bs then length (takeWhile Not bs) else 0)"

definition qth_survival_times :: "real \<Rightarrow> survival_functions \<Rightarrow> py_error + lookup" where
  "qth_survival_times q survival_functions =
     (if \<not> (0 \<le> q \<and> q \<le> 1) then Inl AssertionError
      else case survival_functions of
        DataFrame idx rows \<Rightarrow>
          (if rows = [] then Inl ValueError
           else Inr (Times (map (\<lambda>c.
                  let sv_b = map (\<lambda>x. fl_less x (Fin q)) c
                  in if \<not> last sv_b then - 1 else idx ! argmax_bool sv_b)
                (columns_of rows))))
      | NdArray rows \<Rightarrow>
          (if rows = [] then Inl ValueError
           else Inr (Indices (map (\<lambda>c.
                  let sv_b = map (\<lambda>x. fl_less x (Fin q)) c
                  in if \<not> last sv_b then - 1 else int (argmax_bool sv_b))
                (columns_of rows)))))"

definition median_survival_times :: "survival_functions \<Rightarrow> py_error + lookup" where
  "median_survival_times survival_functions = qth_survival_times (1 / 2) survival_functions"

section \<open>The Nelson-Aalen and Kaplan-Meier fitters\<close>

text \<open>
  What a call returns: \<^verbatim>\<open>None\<close> or the object itself.
\<close>

datatype py_ret = RetNone | RetSelf

text \<open>
  \<^verbatim>\<open>lifelines.utils.inv_normal_cdf\<close> and \<^verbatim>\<open>lifelines.plotting.plot_dataframes\<close> are
  not part of the sources.  The first is a parameter \<open>inv_normal_cdf\<close> of every function
  that calls it; the second only builds the plotting hook and is left out.  The bounds are
  computed elementwise on the values of the estimate, and kept on the index of the estimate.
  An attribute that Python writes with a trailing underscore (\<^verbatim>\<open>cumulative_hazard_\<close>)
  loses it here; a name with a leading underscore (\<^verbatim>\<open>_bounds\<close>) takes the prefix
  of its class instead.
\<close>

record NelsonAalenFitter =
  na_alpha :: real
  nelson_aalen_smoothing :: bool
  na_variance_f :: "int \<Rightarrow> int \<Rightarrow> npfloat"
  na_additive_f :: "int \<Rightarrow> int \<Rightarrow> npfloat"

definition NelsonAalenFitter_init :: "real \<Rightarrow> bool \<Rightarrow> NelsonAalenFitter" where
  "NelsonAalenFitter_init alpha smoothing =
     (if smoothing
      then \<lparr>na_alpha = alpha, nelson_aalen_smoothing = smoothing,
            na_variance_f = NA_variance_f_smooth, na_additive_f = NA_additive_f_smooth\<rparr>
      else \<lparr>na_alpha = alpha, nelson_aalen_smoothing = smoothing,
            na_variance_f = NA_variance_f_discrete, na_additive_f = NA_additive_f_discrete\<rparr>)"

record NelsonAalenFitted = NelsonAalenFitter +
  na_censorship :: "bool list"
  na_event_times :: "row list"
  na_timeline :: "real list"
  cumulative_hazard :: "real list \<times> npfloat list"
  na_confidence_interval :: "npfloat list \<times> npfloat list"

definition NA_bounds ::
    "(real \<Rightarrow> npfloat) \<Rightarrow> npfloat list \<Rightarrow> npfloat list \<Rightarrow> real \<Rightarrow> npfloat list \<times> npfloat list" where
  "NA_bounds inv_normal_cdf hazard cumulative_sq alpha =
     (let alpha2 = inv_normal_cdf (1 - (1 - alpha) / 2)
      in (map (\<lambda>(h, s). fl_mul h (fl_exp (fl_div (fl_mul alpha2 (fl_sqrt s)) h)))
            (zip hazard cumulative_sq),
          map (\<lambda>(h, s). fl_mul h (fl_exp (fl_div (fl_mul (fl_neg alpha2) (fl_sqrt s)) h)))
            (zip hazard cumulative_sq)))"

definition NelsonAalenFitter_fit ::
    "(real \<Rightarrow> npfloat) \<Rightarrow> NelsonAalenFitter \<Rightarrow> real list \<Rightarrow> bool list option \<Rightarrow>
     real list option \<Rightarrow> real option \<Rightarrow> py_error + (py_ret \<times> NelsonAalenFitted)" where
  "NelsonAalenFitter_fit inv_normal_cdf self event_times censorship timeline alpha =
     (let cens = (case censorship of None \<Rightarrow> replicate (length event_times) True
                  | Some c \<Rightarrow> c)
      in case dataframe_from_events_censorship event_times cens of
           Inl e \<Rightarrow> Inl e
         | Inr table \<Rightarrow>
            (let alpha1 = (case alpha of None \<Rightarrow> na_alpha self | Some a \<Rightarrow> a);
                 timeline1 = (case timeline of None \<Rightarrow> map time table | Some ts \<Rightarrow> ts)
             in case additive_estimate table timeline1 (na_additive_f self) (na_variance_f self) of
                  Inl e \<Rightarrow> Inl e
                | Inr (idx, hazard, cumulative_sq) \<Rightarrow>
                    Inr (RetNone,
                         NelsonAalenFitter.extend self
                           (NelsonAalenFitted.fields cens table timeline1 (idx, hazard)
                              (NA_bounds inv_normal_cdf hazard cumulative_sq alpha1)))))"

record KaplanMeierFitter =
  km_alpha :: real

definition KaplanMeierFitter_init :: "real \<Rightarrow> KaplanMeierFitter" where
  "KaplanMeierFitter_init alpha = \<lparr>km_alpha = alpha\<rparr>"

record KaplanMeierFitted = KaplanMeierFitter +
  km_censorship :: "bool list"
  km_event_times :: "row list"
  km_timeline :: "real list"
  survival_function :: "real list \<times> npfloat list"
  km_median :: lookup
  km_confidence_interval :: "npfloat list \<times> npfloat list"

definition KM_bounds ::
    "(real \<Rightarrow> npfloat) \<Rightarrow> npfloat list \<Rightarrow> npfloat list \<Rightarrow> real \<Rightarrow> npfloat list \<times> npfloat list" where
  "KM_bounds inv_normal_cdf survival cumulative_sq alpha =
     (let alpha2 = inv_normal_cdf ((1 + alpha) / 2);
          vs = map fl_log survival
      in (map (\<lambda>(w, s). fl_exp (fl_neg (fl_exp
                 (fl_log (fl_neg w) + fl_div (fl_mul alpha2 (fl_sqrt s)) w))))
            (zip vs cumulative_sq),
          map (\<lambda>(w, s). fl_exp (fl_neg (fl_exp
                 (fl_sub (fl_log (fl_neg w)) (fl_div (fl_mul alpha2 (fl_sqrt s)) w)))))
            (zip vs cumulative_sq)))"

definition KaplanMeierFitter_fit ::
    "(real \<Rightarrow> npfloat) \<Rightarrow> KaplanMeierFitter \<Rightarrow> real list \<Rightarrow> bool list option \<Rightarrow>
     real list option \<Rightarrow> real option \<Rightarrow> py_error + (py_ret \<times> KaplanMeierFitted)" where
  "KaplanMeierFitter_fit inv_normal_cdf self event_times censorship timeline alpha =
     (let cens = (case censorship of None \<Rightarrow> replicate (length event_times) True
                  | Some c \<Rightarrow> c);
          alpha1 = (case alpha of None \<Rightarrow> km_alpha self
                    | Some a \<Rightarrow> if a = 0 then km_alpha self else a)
      in case dataframe_from_events_censorship event_times cens of
           Inl e \<Rightarrow> Inl e
         | Inr table \<Rightarrow>
            (let timeline1 = (case timeline of None \<Rightarrow> map time table | Some ts \<Rightarrow> ts)
             in case additive_estimate table timeline1 KM_additive_f KM_variance_f of
                  Inl e \<Rightarrow> Inl e
                | Inr (idx, log_surivial_function, cumulative_sq) \<Rightarrow>
                   (let survival = map fl_exp log_surivial_function
                    in case median_survival_times (DataFrame idx (map (\<lambda>x. [x]) survival)) of
                         Inl e \<Rightarrow> Inl e
                       | Inr med \<Rightarrow>
                           Inr (RetSelf,
                                KaplanMeierFitter.extend self
                                  (KaplanMeierFitted.fields cens table timeline1 (idx, survival)
                                     med (KM_bounds inv_normal_cdf survival cumulative_sq alpha1))))))"

section \<open>Aalen's additive regression\<close>

text \<open>
  Matrices are lists of rows over the reals.  \<^verbatim>\<open>numpy.linalg.inv\<close> is idealised in
  exact arithmetic: it raises \<^verbatim>\<open>LinAlgError\<close> (the value \<open>None\<close>) exactly when the
  determinant is zero, and returns the adjugate divided by the determinant otherwise.
\<close>

type_synonym matrix = "real list list"

definition dot :: "matrix \<Rightarrow> matrix \<Rightarrow> matrix" where
  "dot A B = map (\<lambda>r. map (\<lambda>c. sum_list (map (\<lambda>(x, y). x * y) (zip r c))) (columns_of B)) A"

definition mat_sub :: "matrix \<Rightarrow> matrix \<Rightarrow> matrix" where
  "mat_sub A B = map (\<lambda>(r, r'). map (\<lambda>(x, y). x - y) (zip r r')) (zip A B)"

definition eye :: "nat \<Rightarrow> matrix" where
  "eye p = map (\<lambda>i. map (\<lambda>j. if i = j then 1 else 0) [0..<p]) [0..<p]"

definition scale :: "real \<Rightarrow> matrix \<Rightarrow> matrix" where
  "scale c A = map (map (\<lambda>x. c * x)) A"

definition del :: "nat \<Rightarrow> 'a list \<Rightarrow> 'a list" where
  "del j xs = take j xs @ drop (Suc j) xs"

fun det_n :: "nat \<Rightarrow> matrix \<Rightarrow> real" where
  "det_n 0 A = 1"
| "det_n (Suc n) A =
     sum_list (map (\<lambda>j. (- 1) ^ j * (hd A ! j) * det_n n (map (del j) (tl A))) [0..<Suc n])"

definition det :: "matrix \<Rightarrow> real" where
  "det A = det_n (length A) A"

definition inv :: "matrix \<Rightarrow> matrix option" where
  "inv A =
     (if det A = 0 then None
      else Some (map (\<lambda>i. map (\<lambda>j.
              (- 1) ^ (i + j) * det (map (del i) (del j A)) / det A) [0..<length A])
            [0..<length A]))"

text \<open>
  Modelled from the spec: \<^verbatim>\<open>lifelines.utils.basis\<close> is not part of the sources; the
  spec calls \<open>e_i\<close> the unit vector that selects row \<open>i\<close>.
\<close>

definition basis :: "nat \<Rightarrow> nat \<Rightarrow> real list" where
  "basis n i = map (\<lambda>k. if k = i then 1 else 0) [0..<n]"

definition mat_vec :: "matrix \<Rightarrow> real list \<Rightarrow> real list" where
  "mat_vec A x = map (\<lambda>r. sum_list (map (\<lambda>(a, b). a * b) (zip r x))) A"

definition vec_add :: "real list \<Rightarrow> real list \<Rightarrow> real list" where
  "vec_add x y = map (\<lambda>(a, b). a + b) (zip x y)"

text \<open>\<^verbatim>\<open>dot(V[:,i][:,None], V[:,i][None,:]).diagonal()\<close>: the squares of column \<open>i\<close>.\<close>

definition outer_diagonal :: "matrix \<Rightarrow> nat \<Rightarrow> real list" where
  "outer_diagonal V i = map (\<lambda>r. (r ! i) * (r ! i)) V"

definition mask_add :: "bool list \<Rightarrow> real list \<Rightarrow> matrix \<Rightarrow> matrix" where
  "mask_add msk x M = map (\<lambda>(m, r). if m then vec_add r x else r) (zip msk M)"

text \<open>\<^verbatim>\<open>argsort\<close>: the positions in ascending order of the values; equal values keep
  their order.\<close>

definition argsort :: "real list \<Rightarrow> nat list" where
  "argsort xs = map snd (sort_key fst (zip xs [0..<length xs]))"

datatype column_label = ColIndex nat | ColName string

record AalenAdditiveFitter =
  fit_intercept :: bool
  aaf_alpha :: real
  penalizer :: real

definition AalenAdditiveFitter_init :: "bool \<Rightarrow> real \<Rightarrow> real \<Rightarrow> AalenAdditiveFitter" where
  "AalenAdditiveFitter_init fi alpha pen =
     \<lparr>fit_intercept = fi, aaf_alpha = alpha, penalizer = pen\<rparr>"

record AalenAdditiveFitted = AalenAdditiveFitter +
  cumulative_hazards :: matrix
  hazards :: matrix
  aaf_variance :: matrix
  aaf_columns :: "column_label list"
  aaf_timeline :: "real list"
  aaf_X :: matrix
  aaf_censorship :: "bool list option"
  confidence_intervals :: "npfloat list list \<times> npfloat list list"

text \<open>
  The variables of the loop of \<^verbatim>\<open>AalenAdditiveFitter.fit\<close>.  \<open>l_V\<close> is unbound until
  an inversion has succeeded.
\<close>

record aalen_state =
  l_cumulative_hazards :: matrix
  l_hazards :: matrix
  l_variance :: matrix
  l_X :: matrix
  l_t_0 :: real
  l_cum_v :: "real list"
  l_v :: "real list"
  l_V :: "matrix option"

definition aalen_step ::
    "nat \<Rightarrow> nat \<Rightarrow> real \<Rightarrow> bool list \<Rightarrow> real list \<Rightarrow> aalen_state \<Rightarrow> nat \<times> real \<Rightarrow>
     py_error + aalen_state" where
  "aalen_step n p pen observed timeline s it =
     (let i = fst it; tm = snd it;
          relevant_times = map (\<lambda>x. l_t_0 s < x \<and> x \<le> tm) timeline;
          X1 = (if \<not> observed ! i then (l_X s)[i := replicate p 0] else l_X s)
      in case inv (mat_sub (dot (columns_of X1) X1) (scale pen (eye p))) of
           None \<Rightarrow>
             (case l_V s of
                None \<Rightarrow> Inl UnboundLocalError
              | Some V \<Rightarrow>
                  Inr \<lparr>l_cumulative_hazards =
                         mask_assign relevant_times (l_cum_v s) (l_cumulative_hazards s),
                       l_hazards = (l_hazards s)[i := l_v s],
                       l_variance = mask_assign relevant_times (outer_diagonal V i) (l_variance s),
                       l_X = X1[i := replicate p 0],
                       l_t_0 = tm, l_cum_v = l_cum_v s, l_v = l_v s, l_V = Some V\<rparr>)
         | Some W \<Rightarrow>
             (let V = dot W (columns_of X1);
                  v1 = mat_vec V (basis n i);
                  cum_v1 = vec_add (l_cum_v s) v1
              in Inr \<lparr>l_cumulative_hazards =
                         mask_add relevant_times cum_v1 (l_cumulative_hazards s),
                       l_hazards = (l_hazards s)[i := vec_add (l_hazards s ! i) v1],
                       l_variance = mask_add relevant_times (outer_diagonal V i) (l_variance s),
                       l_X = X1[i := replicate p 0],
                       l_t_0 = tm, l_cum_v = cum_v1, l_v = v1, l_V = Some V\<rparr>))"

fun aalen_loop ::
    "nat \<Rightarrow> nat \<Rightarrow> real \<Rightarrow> bool list \<Rightarrow> real list \<Rightarrow> aalen_state \<Rightarrow> (nat \<times> real) list \<Rightarrow>
     py_error + aalen_state" where
  "aalen_loop n p pen observed timeline s [] = Inr s"
| "aalen_loop n p pen observed timeline s (it # its) =
     (case aalen_step n p pen observed timeline s it of
        Inl e \<Rightarrow> Inl e
      | Inr s1 \<Rightarrow> aalen_loop n p pen observed timeline s1 its)"

definition compute_confidence_intervals ::
    "(real \<Rightarrow> npfloat) \<Rightarrow> real \<Rightarrow> matrix \<Rightarrow> matrix \<Rightarrow> npfloat list list \<times> npfloat list list" where
  "compute_confidence_intervals inv_normal_cdf alpha cum variance =
     (let alpha2 = inv_normal_cdf (1 - (1 - alpha) / 2)
      in (map (\<lambda>(cr, vr). map (\<lambda>(c, w). Fin c + fl_mul alpha2 (fl_sqrt (Fin w))) (zip cr vr))
            (zip cum variance),
          map (\<lambda>(cr, vr). map (\<lambda>(c, w). fl_sub (Fin c) (fl_mul alpha2 (fl_sqrt (Fin w)))) (zip cr vr))
            (zip cum variance)))"

text \<open>
  \<^verbatim>\<open>fit(self, event_times, X, timeline, censorship, columns)\<close>, for \<open>X\<close> an array with
  \<open>n\<close> rows and \<open>d\<close> columns (the shape is an argument, since a list of rows does not
  determine \<open>d\<close> when \<open>n = 0\<close>) and \<open>event_times\<close> the row of a \<open>(1, n)\<close> array.
  The three frames are created with \<open>d + fit_intercept\<close> columns of zeros and the labels
  \<open>columns + ["baseline"]\<close>; pandas refuses the construction when the two counts differ.
  \<^verbatim>\<open>censorship.reshape(n)\<close> fails on an array of another size, and so do the
  array operations when \<open>event_times\<close> and \<open>X\<close> disagree on \<open>n\<close>.
  The function is cut in three: the state before the loop (\<open>aalen_start\<close>), the loop, and
  the statements after it (\<open>aalen_finish\<close>: the last interval, the attributes, the
  confidence intervals, \<^verbatim>\<open>return self\<close>).
\<close>

definition aalen_start :: "nat \<Rightarrow> nat \<Rightarrow> real list \<Rightarrow> matrix \<Rightarrow> real \<Rightarrow> aalen_state" where
  "aalen_start m p timeline X1 t0 =
     \<lparr>l_cumulative_hazards = replicate (length timeline) (replicate p 0),
      l_hazards = replicate m (replicate p 0),
      l_variance = replicate (length timeline) (replicate p 0),
      l_X = X1, l_t_0 = t0, l_cum_v = replicate p 0, l_v = replicate p 0, l_V = None\<rparr>"

definition aalen_finish ::
    "(real \<Rightarrow> npfloat) \<Rightarrow> AalenAdditiveFitter \<Rightarrow> matrix \<Rightarrow> bool list option \<Rightarrow>
     column_label list \<Rightarrow> real list \<Rightarrow> real list \<Rightarrow> aalen_state \<Rightarrow>
     py_error + (py_ret \<times> AalenAdditiveFitted)" where
  "aalen_finish inv_normal_cdf self X censorship columns timeline sorted_event_times s =
     (case l_V s of
        None \<Rightarrow> Inl UnboundLocalError
      | Some V \<Rightarrow>
         (let i = length sorted_event_times - 1;
              relevant_times = map (\<lambda>x. last sorted_event_times < x) timeline;
              cum = mask_assign relevant_times (l_cum_v s) (l_cumulative_hazards s);
              haz = (l_hazards s)[i := l_v s];
              variance = mask_assign relevant_times (outer_diagonal V i) (l_variance s)
          in Inr (RetSelf,
                  AalenAdditiveFitter.extend self
                    (AalenAdditiveFitted.fields cum haz variance columns timeline X censorship
                       (compute_confidence_intervals inv_normal_cdf (aaf_alpha self)
                          cum variance)))))"

definition AalenAdditiveFitter_fit ::
    "(real \<Rightarrow> npfloat) \<Rightarrow> AalenAdditiveFitter \<Rightarrow> real list \<Rightarrow> nat \<times> nat \<Rightarrow> matrix \<Rightarrow>
     real list option \<Rightarrow> bool list option \<Rightarrow> column_label list option \<Rightarrow>
     py_error + (py_ret \<times> AalenAdditiveFitted)" where
  "AalenAdditiveFitter_fit inv_normal_cdf self event_times shape X timeline censorship columns =
     (let n = fst shape; d = snd shape;
          ix = argsort event_times;
          X1 = (if \<not> fit_intercept self then map (\<lambda>k. X ! k) ix
                else map (\<lambda>k. X ! k @ [1]) ix);
          sorted_event_times = map (\<lambda>k. event_times ! k) ix;
          columns1 = (case columns of None \<Rightarrow> map ColIndex [0..<d] | Some cs \<Rightarrow> cs)
                       @ [ColName ''baseline''];
          p = d + (if fit_intercept self then 1 else 0)
      in if \<not> (length event_times = n \<and> length X = n \<and> list_all (\<lambda>r. length r = d) X)
         then Inl ValueError
         else if censorship \<noteq> None \<and> length (the censorship) \<noteq> n then Inl ValueError
         else
          (let observed = (case censorship of None \<Rightarrow> replicate n True | Some c \<Rightarrow> c);
               timeline0 = (case timeline of None \<Rightarrow> sorted_event_times | Some ts \<Rightarrow> ts)
           in case timeline0 of
                [] \<Rightarrow> Inl IndexError
              | x # _ \<Rightarrow>
                 (let timeline1 = (if 0 < x then 0 # timeline0 else timeline0)
                  in if length columns1 \<noteq> p then Inl ValueError
                     else case sorted_event_times of
                        [] \<Rightarrow> Inl IndexError
                      | t0 # _ \<Rightarrow>
                         (case aalen_loop n p (penalizer self) observed timeline1
                                 (aalen_start (length event_times) p timeline1 X1 t0)
                                 (zip [0..<length sorted_event_times] sorted_event_times) of
                            Inl e \<Rightarrow> Inl e
                          | Inr s \<Rightarrow>
                              aalen_finish inv_normal_cdf self X censorship columns1 timeline1
                                sorted_event_times s))))"

text \<open>
  \<^verbatim>\<open>smoothed_hazards_(self, bandwith)\<close>.  A stored \<^verbatim>\<open>None\<close> has no method
  \<^verbatim>\<open>astype\<close>.  A boolean mask selects the positions that hold \<open>True\<close>; it is taken to
  fail on an array of another length.
\<close>

definition gaussian :: "real \<Rightarrow> real \<Rightarrow> real \<Rightarrow> npfloat" where
  "gaussian x T sigma =
     fl_mul (fl_div (Fin 1) (fl_sqrt (Fin (pi * 2 * sigma ^ 2))))
            (fl_exp (fl_div (Fin (- (1 / 2) * (x - T) ^ 2)) (Fin (sigma ^ 2))))"

definition select :: "bool list \<Rightarrow> 'a list \<Rightarrow> 'a list" where
  "select msk xs = map snd (filter fst (zip msk xs))"

definition fl_dot :: "npfloat list list \<Rightarrow> matrix \<Rightarrow> npfloat list list" where
  "fl_dot A B =
     map (\<lambda>r. map (\<lambda>c. sum_list (map (\<lambda>(x, y). fl_mul x (Fin y)) (zip r c))) (columns_of B)) A"

definition smoothed_hazards ::
    "AalenAdditiveFitted \<Rightarrow> real \<Rightarrow> py_error + (real list \<times> npfloat list list)" where
  "smoothed_hazards self bandwith =
     (case aaf_censorship self of
        None \<Rightarrow> Inl AttributeError
      | Some C \<Rightarrow>
          if \<not> (length C = length (aaf_timeline self) \<and> length C = length (hazards self))
          then Inl IndexError
          else Inr (aaf_timeline self,
                    fl_dot (map (\<lambda>x. map (\<lambda>T. gaussian x T bandwith) (select C (aaf_timeline self)))
                              (aaf_timeline self))
                           (select C (hazards self))))"


section \<open>Notions used to state the properties\<close>

text \<open>
  The size of the risk set to which the increment of row \<open>k\<close> is applied: everybody, less
  those who left in an earlier row, less those censored in row \<open>k\<close> itself.
\<close>

definition at_risk :: "row list \<Rightarrow> nat \<Rightarrow> int" where
  "at_risk rows k =
     sum_list (map removed rows)
       - sum_list (map (\<lambda>r. missing r + observed_deaths r) (take k rows))
       - missing (rows ! k)"

text \<open>The sum of the increments of the rows whose time is at most \<open>x\<close>.\<close>

definition accumulated :: "(int \<Rightarrow> int \<Rightarrow> 'a::monoid_add) \<Rightarrow> row list \<Rightarrow> real \<Rightarrow> 'a" where
  "accumulated h rows x =
     sum_list (map (\<lambda>k. h (at_risk rows k) (observed_deaths (rows ! k)))
       (filter (\<lambda>k. time (rows ! k) \<le> x) [0..<length rows]))"

definition partial_sum :: "(int \<Rightarrow> int \<Rightarrow> 'a::monoid_add) \<Rightarrow> row list \<Rightarrow> nat \<Rightarrow> 'a" where
  "partial_sum h rows m =
     sum_list (map (\<lambda>k. h (at_risk rows k) (observed_deaths (rows ! k))) [0..<m])"

definition last_time :: "row list \<Rightarrow> nat \<Rightarrow> real" where
  "last_time rows m = time (rows ! (m - 1))"

text \<open>The state of the loop after the first \<open>m\<close> rows, for \<open>m > 0\<close>.\<close>

definition loop_inv ::
  "(int \<Rightarrow> int \<Rightarrow> 'a::monoid_add) \<Rightarrow> (int \<Rightarrow> int \<Rightarrow> 'a) \<Rightarrow> real list \<Rightarrow> row list \<Rightarrow> nat \<Rightarrow>
   'a loop_state \<Rightarrow> bool" where
  "loop_inv f g timeline rows m s \<longleftrightarrow>
     s_N s = sum_list (map removed rows)
               - sum_list (map (\<lambda>r. missing r + observed_deaths r) (take m rows)) \<and>
     s_v s = partial_sum f rows m \<and>
     s_v_sq s = partial_sum g rows m \<and>
     s_t_0 s = last_time rows m \<and>
     s_t s = Some (last_time rows m) \<and>
     s_est s = map (\<lambda>x. if x < last_time rows m then accumulated f rows x else 0) timeline \<and>
     s_var s = map (\<lambda>x. if x < last_time rows m then accumulated g rows x else 0) timeline"

text \<open>The risk-set table of the sample \<open>[1, 2, 2, 3]\<close> whose second subject at time 2 is censored.\<close>

definition example_table :: "row list" where
  "example_table =
     [\<lparr>time = 1, removed = 1, observed_deaths = 1, missing = 0\<rparr>,
      \<lparr>time = 2, removed = 2, observed_deaths = 1, missing = 1\<rparr>,
      \<lparr>time = 3, removed = 1, observed_deaths = 1, missing = 0\<rparr>]"

text \<open>
  A stand-in for the normal quantile at concrete inputs: increasing, zero at \<open>1/2\<close>,
  \<open>1.9\<close> at \<open>0.975\<close>.
\<close>

definition quantile_stand_in :: "real \<Rightarrow> npfloat" where
  "quantile_stand_in p = Fin (4 * p - 2)"



definition fitted_hazard ::
    "(real \<Rightarrow> npfloat) \<Rightarrow> NelsonAalenFitter \<Rightarrow> real list \<Rightarrow> bool list option \<Rightarrow>
     real list option \<Rightarrow> real option \<Rightarrow> py_error + (real list \<times> npfloat list)" where
  "fitted_hazard inv_normal_cdf self event_times censorship timeline alpha =
     (case NelsonAalenFitter_fit inv_normal_cdf self event_times censorship timeline alpha of
        Inl e \<Rightarrow> Inl e
      | Inr rm \<Rightarrow> Inr (cumulative_hazard (snd rm)))"


definition returned :: "py_error + (py_ret \<times> 'a) \<Rightarrow> py_ret option" where
  "returned result = (case result of Inl e \<Rightarrow> None | Inr rm \<Rightarrow> Some (fst rm))"

definition smoothed_after_fit ::
    "(real \<Rightarrow> npfloat) \<Rightarrow> AalenAdditiveFitter \<Rightarrow> real list \<Rightarrow> nat \<times> nat \<Rightarrow> matrix \<Rightarrow>
     real list option \<Rightarrow> bool list option \<Rightarrow> column_label list option \<Rightarrow> real \<Rightarrow>
     py_error + (real list \<times> npfloat list list)" where
  "smoothed_after_fit inv_normal_cdf self event_times shape X timeline censorship columns bandwith =
     (case AalenAdditiveFitter_fit inv_normal_cdf self event_times shape X timeline censorship
             columns of
        Inl e \<Rightarrow> Inl e
      | Inr rm \<Rightarrow> smoothed_hazards (snd rm) bandwith)"




text \<open>A finite value that is not negative; a table whose counts are consistent.\<close>

definition fin_nonneg :: "npfloat \<Rightarrow> bool" where
  "fin_nonneg x = (case x of Fin a \<Rightarrow> 0 \<le> a | _ \<Rightarrow> False)"


text \<open>The censoring flags that a fit uses when the argument may be omitted.\<close>

definition flags :: "real list \<Rightarrow> bool list option \<Rightarrow> bool list" where
  "flags event_times censorship =
     (case censorship of None \<Rightarrow> replicate (length event_times) True | Some c \<Rightarrow> c)"







section \<open>The additive estimator in closed form\<close>

lemma mask_assign_map:
  "mask_assign (map P xs) a (map h xs) = map (\<lambda>x. if P x then a else h x) xs"
  by (induction xs) (simp_all add: mask_assign_def)

lemma mask_assign_replicate:
  "mask_assign (map P xs) (0::'a::zero) (replicate (length xs) 0) = map (\<lambda>x. 0) xs"
  by (induction xs) (simp_all add: mask_assign_def)

lemma mask_assign_const:
  "mask_assign (map P xs) (0::'a::zero) (map (\<lambda>x. 0) xs) = map (\<lambda>x. 0) xs"
  by (induction xs) (simp_all add: mask_assign_def)

lemma filter_upt_prefix:
  assumes "m \<le> n" "\<forall>k<m. P k" "\<forall>k. m \<le> k \<and> k < n \<longrightarrow> \<not> P k"
  shows "filter P [0..<n] = [0..<m]"
proof -
  have "[0..<n] = [0..<m] @ [m..<n]"
    using assms(1) by (metis le_add_diff_inverse upt_add_eq_append zero_le)
  moreover have "filter P [0..<m] = [0..<m]"
    using assms(2) by (simp add: filter_id_conv)
  moreover have "filter P [m..<n] = []"
    using assms(3) by (simp add: filter_empty_conv)
  ultimately show ?thesis by simp
qed

lemma accumulated_between:
  assumes "sorted (map time rows)" "m \<le> length rows"
    "0 < m \<longrightarrow> time (rows ! (m - 1)) \<le> x"
    "m < length rows \<longrightarrow> x < time (rows ! m)"
  shows "accumulated h rows x = partial_sum h rows m"
proof -
  have lo: "\<forall>k<m. time (rows ! k) \<le> x"
  proof (intro allI impI)
    fix k assume k: "k < m"
    then have "time (rows ! k) \<le> time (rows ! (m - 1))"
      using assms(1,2) sorted_nth_mono[of "map time rows" k "m - 1"] by simp
    with k assms(3) show "time (rows ! k) \<le> x" by simp
  qed
  have hi: "\<forall>k. m \<le> k \<and> k < length rows \<longrightarrow> \<not> time (rows ! k) \<le> x"
  proof (intro allI impI)
    fix k assume k: "m \<le> k \<and> k < length rows"
    then have "time (rows ! m) \<le> time (rows ! k)"
      using assms(1) sorted_nth_mono[of "map time rows" m k] by simp
    with k assms(4) show "\<not> time (rows ! k) \<le> x" by simp
  qed
  show ?thesis
    unfolding accumulated_def partial_sum_def
    using filter_upt_prefix[OF assms(2) lo hi] by simp
qed

lemma partial_sum_Suc:
  "partial_sum h rows (Suc m) =
     partial_sum h rows m + h (at_risk rows m) (observed_deaths (rows ! m))"
  by (simp add: partial_sum_def)

lemma take_Suc_sum:
  "m < length rows \<Longrightarrow>
     sum_list (map h (take (Suc m) rows)) = sum_list (map h (take m rows)) + (h (rows ! m) :: int)"
  by (simp add: take_Suc_conv_app_nth)

lemma additive_step_inv:
  assumes srt: "sorted (map time rows)" and m: "0 < m" "m < length rows"
    and inv: "loop_inv f g timeline rows m s"
  shows "loop_inv f g timeline rows (Suc m) (additive_step f g timeline s (rows ! m))"
proof -
  let ?lo = "last_time rows m" and ?hi = "time (rows ! m)"
  have le: "?lo \<le> ?hi"
    using srt m sorted_nth_mono[of "map time rows" "m - 1" m] by (simp add: last_time_def)
  have mid: "accumulated h rows x = partial_sum h rows m"
    if "?lo \<le> x" "x < ?hi" for x and h :: "int \<Rightarrow> int \<Rightarrow> 'a"
    using accumulated_between[OF srt, of m x h] m that by (simp add: last_time_def)
  have est: "(if ?lo \<le> x \<and> x < ?hi then partial_sum h rows m
              else if x < ?lo then accumulated h rows x else 0)
           = (if x < ?hi then accumulated h rows x else 0)" for x and h :: "int \<Rightarrow> int \<Rightarrow> 'a"
    using le mid[of x h] by auto
  have estmap: "mask_assign (map (\<lambda>x. ?lo \<le> x \<and> x < ?hi) timeline) (partial_sum h rows m)
                  (map (\<lambda>x. if x < ?lo then accumulated h rows x else 0) timeline)
               = map (\<lambda>x. if x < ?hi then accumulated h rows x else 0) timeline"
    for h :: "int \<Rightarrow> int \<Rightarrow> 'a"
    by (simp only: mask_assign_map est)
  have N1: "s_N s - missing (rows ! m) = at_risk rows m"
    using inv by (simp add: loop_inv_def at_risk_def)
  have flds: "s_v s = partial_sum f rows m" "s_v_sq s = partial_sum g rows m"
    "s_t_0 s = ?lo"
    "s_est s = map (\<lambda>x. if x < ?lo then accumulated f rows x else 0) timeline"
    "s_var s = map (\<lambda>x. if x < ?lo then accumulated g rows x else 0) timeline"
    using inv by (simp_all add: loop_inv_def)
  have lt: "last_time rows (Suc m) = time (rows ! m)"
    by (simp add: last_time_def)
  have N2: "at_risk rows m - observed_deaths (rows ! m)
      = sum_list (map removed rows)
          - sum_list (map (\<lambda>r. missing r + observed_deaths r) (take (Suc m) rows))"
    using inv m by (simp add: loop_inv_def take_Suc_sum at_risk_def)
  show ?thesis
    unfolding loop_inv_def additive_step_def Let_def
    by (simp add: flds estmap N1 N2 partial_sum_Suc lt)
qed

lemma additive_loop_inv:
  assumes srt: "sorted (map time rows)"
  shows "0 < m \<Longrightarrow> m + length rest = length rows \<Longrightarrow> rest = drop m rows \<Longrightarrow>
     loop_inv f g timeline rows m s \<Longrightarrow>
     loop_inv f g timeline rows (length rows) (foldl (additive_step f g timeline) s rest)"
proof (induction rest arbitrary: m s)
  case Nil
  then show ?case by simp
next
  case (Cons r rest)
  have m: "m < length rows" using Cons.prems(2) by simp
  have "rows ! m # drop (Suc m) rows = r # rest"
    using Cons.prems(3) Cons_nth_drop_Suc[OF m] by simp
  then have r: "r = rows ! m" and rest: "rest = drop (Suc m) rows"
    by simp_all
  have "loop_inv f g timeline rows (Suc m) (additive_step f g timeline s r)"
    unfolding r using additive_step_inv[OF srt Cons.prems(1) m Cons.prems(4)] .
  then show ?case
    using Cons.IH[of "Suc m" "additive_step f g timeline s r"] Cons.prems(2) rest by simp
qed

lemma additive_first_step_inv:
  fixes f g :: "int \<Rightarrow> int \<Rightarrow> 'a::monoid_add"
  assumes srt: "sorted (map time rows)" and ne: "rows \<noteq> []"
  shows "loop_inv f g timeline rows (Suc 0)
     (additive_step f g timeline
        \<lparr>s_est = mask_assign (map (\<lambda>x. x < 0) timeline) 0 (replicate (length timeline) 0),
         s_var = mask_assign (map (\<lambda>x. x < 0) timeline) 0 (replicate (length timeline) 0),
         s_N = sum_list (map removed rows), s_v = 0, s_v_sq = 0, s_t_0 = 0, s_t = None\<rparr>
        (rows ! 0))"
proof -
  have before: "accumulated h rows x = 0"
    if "x < time (rows ! 0)" for x and h :: "int \<Rightarrow> int \<Rightarrow> 'a"
    using accumulated_between[OF srt, of 0 x h] that ne by (simp add: partial_sum_def)
  have zero: "map (\<lambda>x. 0) timeline
      = map (\<lambda>x. if x < time (rows ! 0) then accumulated h rows x else 0) timeline"
    for h :: "int \<Rightarrow> int \<Rightarrow> 'a"
    by (rule map_cong) (simp_all add: before)
  have lt: "last_time rows (Suc 0) = time (rows ! 0)"
    by (simp add: last_time_def)
  have ps: "partial_sum h rows (Suc 0)
      = h (sum_list (map removed rows) - missing (rows ! 0)) (observed_deaths (rows ! 0))"
    for h :: "int \<Rightarrow> int \<Rightarrow> 'a"
    by (simp add: partial_sum_def at_risk_def)
  have tk: "take (Suc 0) rows = [rows ! 0]"
    using ne by (cases rows) simp_all
  show ?thesis
    unfolding loop_inv_def additive_step_def Let_def
    by (simp add: mask_assign_replicate mask_assign_const lt ps tk zero[symmetric])
qed

lemma additive_estimate_closed:
  fixes f g :: "int \<Rightarrow> int \<Rightarrow> 'a::monoid_add"
  assumes srt: "sorted (map time rows)" and ne: "rows \<noteq> []" and tne: "timeline \<noteq> []"
  shows "additive_estimate rows timeline f g =
     Inr (if 0 < hd timeline then 0 # timeline else timeline,
          map (accumulated f rows) (if 0 < hd timeline then 0 # timeline else timeline),
          map (accumulated g rows) (if 0 < hd timeline then 0 # timeline else timeline))"
proof -
  define tl1 where "tl1 = (if 0 < hd timeline then 0 # timeline else timeline)"
  define s0 :: "'a loop_state" where "s0 =
        \<lparr>s_est = mask_assign (map (\<lambda>x. x < 0) tl1) 0 (replicate (length tl1) 0),
         s_var = mask_assign (map (\<lambda>x. x < 0) tl1) 0 (replicate (length tl1) 0),
         s_N = sum_list (map removed rows), s_v = 0, s_v_sq = 0, s_t_0 = 0, s_t = None\<rparr>"
  define s where "s = foldl (additive_step f g tl1) s0 rows"
  obtain r rest where rows: "rows = r # rest"
    using ne by (cases rows) auto
  have s: "s = foldl (additive_step f g tl1) (additive_step f g tl1 s0 (rows ! 0)) (drop (Suc 0) rows)"
    by (simp add: s_def rows)
  have inv: "loop_inv f g tl1 rows (length rows) s"
    unfolding s
    by (rule additive_loop_inv[OF srt _ _ refl])
       (use ne additive_first_step_inv[OF srt ne, of f g tl1] in \<open>simp_all add: s0_def rows\<close>)
  have after: "accumulated h rows x = partial_sum h rows (length rows)"
    if "last_time rows (length rows) \<le> x" for x and h :: "int \<Rightarrow> int \<Rightarrow> 'a"
    using accumulated_between[OF srt, of "length rows" x h] that by (simp add: last_time_def)
  have fin: "mask_assign (map (\<lambda>x. last_time rows (length rows) \<le> x) tl1)
               (partial_sum h rows (length rows))
               (map (\<lambda>x. if x < last_time rows (length rows) then accumulated h rows x else 0) tl1)
             = map (accumulated h rows) tl1" for h :: "int \<Rightarrow> int \<Rightarrow> 'a"
    unfolding mask_assign_map
    by (rule map_cong) (auto simp: after)
  have res: "additive_estimate rows timeline f g =
      (case s_t s of None \<Rightarrow> Inl UnboundLocalError
       | Some t_last \<Rightarrow> Inr (tl1, mask_assign (map (\<lambda>x. t_last \<le> x) tl1) (s_v s) (s_est s),
                          mask_assign (map (\<lambda>x. t_last \<le> x) tl1) (s_v_sq s) (s_var s)))"
    using tne unfolding additive_estimate_def s_def s0_def tl1_def
    by (cases timeline) (simp_all add: Let_def)
  show ?thesis
    unfolding res tl1_def[symmetric]
    using inv by (simp add: loop_inv_def fin)
qed





section \<open>The worked example\<close>

lemmas eval_defs =
  additive_estimate_def additive_step_def mask_assign_def of_py_int_def zero_npfloat_def
  Let_def fl_sub_def

lemma example_aggregate:
  "dataframe_from_events_censorship [1, 2, 2, 3] [True, True, False, True] = Inr example_table"
  by (simp add: dataframe_from_events_censorship_def example_table_def)

lemma example_times: "map time example_table = [1, 2, 3]"
  by (simp add: example_table_def)

lemma example_km_curve:
  "additive_estimate example_table [1, 2, 3] KM_additive_f KM_variance_f =
     Inr ([0, 1, 2, 3], [Fin 0, Fin (ln (3 / 4)), Fin (ln (3 / 4) + ln (1 / 2)), MInf],
          [Fin 0, Fin (1 / 12), Fin (7 / 12), PInf])"
  by (simp add: eval_defs example_table_def KM_additive_f_def KM_variance_f_def
      cong: let_weak_cong)

lemma example_na_curve:
  "additive_estimate example_table [1, 2, 3] NA_additive_f_discrete NA_variance_f_discrete =
     Inr ([0, 1, 2, 3], [Fin 0, Fin (1 / 4), Fin (3 / 4), Fin (7 / 4)],
          [Fin 0, Fin (3 / 64), Fin (11 / 64), Fin (11 / 64)])"
  by (simp add: eval_defs example_table_def NA_additive_f_discrete_def
      NA_variance_f_discrete_def cong: let_weak_cong)






section \<open>Aalen's regression at concrete inputs\<close>

lemmas aalen_defs =
  AalenAdditiveFitter_fit_def AalenAdditiveFitter_init_def aalen_start_def aalen_finish_def
  argsort_def aalen_step_def
  inv_def det_def dot_def mat_sub_def scale_def eye_def columns_of_def del_def basis_def
  mat_vec_def vec_add_def outer_diagonal_def mask_add_def mask_assign_def Let_def

text \<open>
  C4, at the first step: two subjects with the same covariate value and an intercept make
  \<open>X\<^sup>T X\<close> singular at once; the handler of \<^verbatim>\<open>LinAlgError\<close> then reads \<^verbatim>\<open>V\<close>, which no
  earlier step has bound, and the fit ends with that error instead of skipping the step.
\<close>

theorem singular_first_step_aborts:
  "AalenAdditiveFitter_fit icdf (AalenAdditiveFitter_init True a 0) [1, 2] (2, 1) [[1], [1]]
     None None None = Inl UnboundLocalError"
  by (simp add: aalen_defs upt_rec cong: let_weak_cong)

text \<open>
  C6, for Nelson-Aalen: \<^verbatim>\<open>NelsonAalenFitter.fit\<close> ends in a bare \<^verbatim>\<open>return\<close>, so it never
  returns the fitter; on the worked example it returns \<^verbatim>\<open>None\<close> where the Kaplan-Meier
  fit returns \<^verbatim>\<open>self\<close>.
\<close>

theorem nelson_aalen_fit_returns_none:
  "returned (NelsonAalenFitter_fit icdf self event_times censorship timeline alpha) \<noteq> Some RetSelf \<and>
   returned (NelsonAalenFitter_fit icdf (NelsonAalenFitter_init a False) [1, 2, 2, 3]
      (Some [True, True, False, True]) None None) = Some RetNone \<and>
   returned (KaplanMeierFitter_fit icdf (KaplanMeierFitter_init a) [1, 2, 2, 3]
      (Some [True, True, False, True]) None None) = Some RetSelf"
proof (intro conjI)
  show "returned (NelsonAalenFitter_fit icdf self event_times censorship timeline alpha)
      \<noteq> Some RetSelf"
    by (auto simp: returned_def NelsonAalenFitter_fit_def Let_def split: sum.splits)
  show "returned (NelsonAalenFitter_fit icdf (NelsonAalenFitter_init a False) [1, 2, 2, 3]
      (Some [True, True, False, True]) None None) = Some RetNone"
    by (simp add: returned_def NelsonAalenFitter_fit_def NelsonAalenFitter_init_def
        example_aggregate example_na_curve example_times Let_def)
  show "returned (KaplanMeierFitter_fit icdf (KaplanMeierFitter_init a) [1, 2, 2, 3]
      (Some [True, True, False, True]) None None) = Some RetSelf"
    by (simp add: returned_def KaplanMeierFitter_fit_def example_aggregate example_km_curve
        example_times Let_def median_survival_times_def qth_survival_times_def columns_of_def)
qed

lemma aalen_finish_censorship:
  assumes "aalen_finish icdf self X censorship columns timeline sorted_event_times s = Inr (r, m)"
  shows "aaf_censorship m = censorship"
  using assms
  by (auto simp: aalen_finish_def Let_def AalenAdditiveFitter.extend_def
        AalenAdditiveFitted.fields_def split: option.splits)

lemma fit_keeps_censorship:
  assumes "AalenAdditiveFitter_fit icdf self event_times shape X timeline censorship columns
             = Inr (r, m)"
  shows "aaf_censorship m = censorship"
  using assms unfolding AalenAdditiveFitter_fit_def Let_def
  by (auto split: if_splits list.splits sum.splits dest: aalen_finish_censorship)

text \<open>
  C10: a fit without the censorship argument stores \<^verbatim>\<open>None\<close> in \<^verbatim>\<open>self.censorship\<close>,
  and \<^verbatim>\<open>smoothed_hazards_\<close> then fails on \<^verbatim>\<open>None.astype\<close>, whatever the bandwidth.
\<close>

theorem smoothed_hazards_fails_without_censorship:
  assumes "AalenAdditiveFitter_fit icdf self event_times shape X timeline None columns
             = Inr (r, m)"
  shows "smoothed_hazards m bandwith = Inl AttributeError"
  using fit_keeps_censorship[OF assms] by (simp add: smoothed_hazards_def)

lemma example_regression_returns:
  "returned (AalenAdditiveFitter_fit icdf (AalenAdditiveFitter_init True a 0) [1, 2] (2, 1)
     [[1], [2]] None None None) = Some RetSelf"
  by (simp add: returned_def aalen_defs upt_rec cong: let_weak_cong)

theorem smoothed_hazards_fails_without_censorship_witness:
  "returned (AalenAdditiveFitter_fit quantile_stand_in (AalenAdditiveFitter_init True (95 / 100) 0)
      [1, 2] (2, 1) [[1], [2]] None None None) = Some RetSelf \<and>
   smoothed_after_fit quantile_stand_in (AalenAdditiveFitter_init True (95 / 100) 0)
      [1, 2] (2, 1) [[1], [2]] None None None 1 = Inl AttributeError"
proof -
  let ?fit = "AalenAdditiveFitter_fit quantile_stand_in (AalenAdditiveFitter_init True (95 / 100) 0)
      [1, 2] (2, 1) [[1], [2]] None None None"
  have ret: "returned ?fit = Some RetSelf"
    by (rule example_regression_returns)
  then obtain m where m: "?fit = Inr (RetSelf, m)"
    by (cases ?fit) (auto simp: returned_def)
  have "smoothed_hazards m 1 = Inl AttributeError"
    using smoothed_hazards_fails_without_censorship[OF m] .
  then show ?thesis
    using ret m by (simp add: smoothed_after_fit_def)
qed


section \<open>Quantile lookup on curves that never rise\<close>















section \<open>The risk-set table of a sample\<close>

lemma aggregate_times:
  assumes "dataframe_from_events_censorship ts cs = Inr rows"
  shows "map time rows = sort (remdups ts)"
  using assms by (auto simp: dataframe_from_events_censorship_def comp_def split: if_splits)

lemma aggregate_sorted:
  assumes "dataframe_from_events_censorship ts cs = Inr rows"
  shows "sorted (map time rows)"
  unfolding aggregate_times[OF assms] by simp






lemma distinct_filter_eq_length:
  "distinct xs \<Longrightarrow> length (filter (\<lambda>s. s = x) xs) \<le> 1"
  by (induction xs) (auto simp: filter_empty_conv)

lemma aggregate_deaths:
  assumes "dataframe_from_events_censorship ts cs = Inr rows" "r \<in> set rows"
  shows "observed_deaths r = int (length (filter (\<lambda>(s, ob). s = time r \<and> ob) (zip ts cs)))"
  using assms by (auto simp: dataframe_from_events_censorship_def split: if_splits)

lemma aggregate_no_ties:
  assumes "dataframe_from_events_censorship ts cs = Inr rows"
    "distinct (map fst (filter snd (zip ts cs)))"
  shows "list_all (\<lambda>r. observed_deaths r = 0 \<or> observed_deaths r = 1) rows"
proof -
  have le: "length (filter (\<lambda>(s, ob). s = x \<and> ob) (zip ts cs)) \<le> 1" for x :: real
  proof -
    have "filter (\<lambda>(s, ob). s = x \<and> ob) (zip ts cs)
        = filter (\<lambda>p. fst p = x) (filter snd (zip ts cs))"
      by (simp add: case_prod_unfold conj_commute)
    then have "length (filter (\<lambda>(s, ob). s = x \<and> ob) (zip ts cs))
        = length (filter (\<lambda>s. s = x) (map fst (filter snd (zip ts cs))))"
      by (simp add: filter_map comp_def)
    then show ?thesis
      using distinct_filter_eq_length[OF assms(2), of x] by simp
  qed
  show ?thesis
    unfolding list_all_iff
  proof
    fix r assume r: "r \<in> set rows"
    show "observed_deaths r = 0 \<or> observed_deaths r = 1"
      using le[of "time r"] unfolding aggregate_deaths[OF assms(1) r] by linarith
  qed
qed


section \<open>The fitted curves in closed form\<close>

lemma additive_estimate_no_timeline: "additive_estimate rows [] f g = Inl IndexError"
  by (simp add: additive_estimate_def)

lemma additive_estimate_no_rows: "additive_estimate [] (x # xs) f g = Inl UnboundLocalError"
  by (simp add: additive_estimate_def Let_def)

lemma accumulated_cong:
  assumes "\<And>k. k < length rows \<Longrightarrow>
     f (at_risk rows k) (observed_deaths (rows ! k)) = f' (at_risk rows k) (observed_deaths (rows ! k))"
  shows "accumulated f rows x = accumulated f' rows x"
  unfolding accumulated_def
  by (rule arg_cong[where f = sum_list], rule map_cong) (simp_all add: assms)


lemma fitted_hazard_closed:
  assumes agg: "dataframe_from_events_censorship event_times (flags event_times censorship) = Inr rows"
    and ne: "rows \<noteq> []"
    and tl: "tln = (case timeline of None \<Rightarrow> map time rows | Some ts \<Rightarrow> ts)" "tln \<noteq> []"
    and idx: "idx = (if 0 < hd tln then 0 # tln else tln)"
  shows "\<exists>m. NelsonAalenFitter_fit icdf self event_times censorship timeline alpha = Inr (RetNone, m) \<and>
     cumulative_hazard m = (idx, map (accumulated (na_additive_f self) rows) idx) \<and>
     na_confidence_interval m =
       NA_bounds icdf (map (accumulated (na_additive_f self) rows) idx)
         (map (accumulated (na_variance_f self) rows) idx)
         (case alpha of None \<Rightarrow> na_alpha self | Some a \<Rightarrow> a)"
proof -
  have est: "additive_estimate rows (case timeline of None \<Rightarrow> map time rows | Some ts \<Rightarrow> ts)
      (na_additive_f self) (na_variance_f self) =
     Inr (idx, map (accumulated (na_additive_f self) rows) idx,
          map (accumulated (na_variance_f self) rows) idx)"
    using additive_estimate_closed[OF aggregate_sorted[OF agg] ne tl(2),
        of "na_additive_f self" "na_variance_f self"]
    unfolding idx tl(1) .
  show ?thesis
    using agg unfolding NelsonAalenFitter_fit_def flags_def Let_def
    by (simp add: est NelsonAalenFitter.extend_def NelsonAalenFitted.fields_def)
qed


lemma smooth_discrete_agree:
  assumes "d = 0 \<or> d = 1"
  shows "NA_additive_f_smooth n d = NA_additive_f_discrete n d"
  using assms
  by (auto simp: NA_additive_f_smooth_def NA_additive_f_discrete_def of_py_int_def zero_npfloat_def)

text \<open>
  C8: when no two observed deaths share a time, the smooth and the discrete Nelson-Aalen
  fits report the same cumulative hazard (the same index and the same values, or the same
  error), whatever the censoring, the timeline and the confidence level.
\<close>

theorem smooth_equals_discrete_without_ties:
  assumes "distinct (map fst (filter snd (zip event_times (flags event_times censorship))))"
  shows "fitted_hazard icdf (NelsonAalenFitter_init a True) event_times censorship timeline alpha =
         fitted_hazard icdf (NelsonAalenFitter_init a False) event_times censorship timeline alpha"
proof (cases "dataframe_from_events_censorship event_times (flags event_times censorship)")
  case (Inl e)
  then show ?thesis
    by (simp add: fitted_hazard_def NelsonAalenFitter_fit_def flags_def Let_def)
next
  case (Inr rows)
  define tln where "tln = (case timeline of None \<Rightarrow> map time rows | Some ts \<Rightarrow> ts)"
  show ?thesis
  proof (cases "rows = [] \<or> tln = []")
    case True
    then have "\<exists>e. \<forall>f g :: int \<Rightarrow> int \<Rightarrow> npfloat. additive_estimate rows tln f g = Inl e"
      by (cases tln) (auto simp: additive_estimate_no_timeline additive_estimate_no_rows)
    then obtain e where
      "additive_estimate rows (case timeline of None \<Rightarrow> map time rows | Some ts \<Rightarrow> ts) f g = Inl e"
      for f g :: "int \<Rightarrow> int \<Rightarrow> npfloat"
      unfolding tln_def by blast
    then show ?thesis
      using Inr unfolding fitted_hazard_def NelsonAalenFitter_fit_def flags_def Let_def
      by simp
  next
    case False
    then have ne: "rows \<noteq> []" "tln \<noteq> []" by simp_all
    have d: "observed_deaths (rows ! k) = 0 \<or> observed_deaths (rows ! k) = 1"
      if "k < length rows" for k
      using aggregate_no_ties[OF Inr assms] that by (simp add: list_all_length)
    have "accumulated NA_additive_f_smooth rows x = accumulated NA_additive_f_discrete rows x" for x
      by (rule accumulated_cong) (simp add: smooth_discrete_agree d)
    then show ?thesis
      using fitted_hazard_closed[OF Inr ne(1) tln_def ne(2) refl, of icdf "NelsonAalenFitter_init a True" alpha]
        fitted_hazard_closed[OF Inr ne(1) tln_def ne(2) refl, of icdf "NelsonAalenFitter_init a False" alpha]
      by (auto simp: fitted_hazard_def NelsonAalenFitter_init_def)
  qed
qed

theorem smooth_equals_discrete_without_ties_witness:
  "distinct (map fst (filter snd
      (zip [1, 2, 2, 3 :: real] (flags [1, 2, 2, 3] (Some [True, True, False, True]))))) \<and>
   fitted_hazard quantile_stand_in (NelsonAalenFitter_init (95 / 100) True) [1, 2, 2, 3]
      (Some [True, True, False, True]) None None =
   fitted_hazard quantile_stand_in (NelsonAalenFitter_init (95 / 100) False) [1, 2, 2, 3]
      (Some [True, True, False, True]) None None"
  using smooth_equals_discrete_without_ties[of "[1, 2, 2, 3]" "Some [True, True, False, True]"
      quantile_stand_in "95 / 100" None None]
  by (simp add: flags_def)


section \<open>Samples without an observed death\<close>








section \<open>The Nelson-Aalen hazard never decreases\<close>

lemma fin_nonneg_Fin [simp]: "fin_nonneg (Fin a) \<longleftrightarrow> 0 \<le> a"
  by (simp add: fin_nonneg_def)

lemma fin_nonneg_zero [simp]: "fin_nonneg 0"
  by (simp add: zero_npfloat_def)
















section \<open>Confidence bands\<close>






























end
